theory Spec2Isabelle
  imports Complex_Main "HOL-Library.Sublist" "HOL-Library.AList" "HOL-Library.Log_Nat"
begin

section \<open>Data model of lighthouse-cli/printer.ts\<close>

text \<open>
  The printer turns a \<open>Results\<close> tree into a string (pretty, JSON or HTML) and delivers
  it to standard output or to a file.

  Conventions of the embedding:
  \<^item> A JavaScript string is a \<open>string\<close> holding its UTF-8 bytes (the encoding
    \<open>fs.writeFile(..., 'utf8', ...)\<close> and \<open>process.stdout.write\<close> produce), so the glyphs of
    the source are three bytes each and ESC is the byte 0x1B.
  \<^item> A finite JavaScript number is the rational that the double is; arithmetic on
    doubles rounds to the nearest double. NaN and the infinities are values of their own
    where the source reads or computes them: as a score, as the product
    \<open>item.overall * 100\<close>, and as a number of a JSON text. The sign of zero is not
    modelled.
  \<^item> A \<open>throw\<close> is the \<open>Inl\<close> of a sum; a promise is the state it settles in.
  \<^item> \<open>results.audits\<close> is a plain object: the map holds its own properties, each an
    \<open>AuditResult\<close>, and the object inherits the properties of \<open>Object.prototype\<close>.
\<close>

text \<open>\<open>enum OutputMode { pretty, json, html }\<close>\<close>

datatype OutputMode = pretty | json | html

text \<open>The numbers that are not finite.\<close>

datatype nonfinite = NaN | PosInfinity | NegInfinity

text \<open>
  The field \<open>score\<close> of an audit is what \<open>formatAggregationResultItem\<close> accepts:
  \<open>boolean | number | string\<close>; a number is finite (\<open>SNum\<close>) or not (\<open>SNonFinite\<close>).
\<close>

datatype score = SBool bool | SNum rat | SNonFinite nonfinite | SStr string

text \<open>\<open>extendedInfo?: { value: string; formatter: string }\<close> (\<open>value\<close> is an Isar keyword).\<close>

record extendedInfo =
  value' :: string
  formatter :: string

record AuditResult =
  displayValue :: string
  debugString :: string
  score :: score
  description :: string
  extendedInfo :: "extendedInfo option"

text \<open>An entry of \<open>subItems: Array<AuditResult | string>\<close>.\<close>

datatype subItem = Inline AuditResult | Ref string

record AggregationResultItem =
  overall :: rat
  name :: string
  scored :: bool
  subItems :: "subItem list"

record Aggregation =
  name :: string
  score :: "AggregationResultItem list"

record Results =
  url :: string
  aggregations :: "Aggregation list"
  audits :: "string \<rightharpoonup> AuditResult"
  lighthouseVersion :: string

text \<open>What a \<open>throw\<close> carries: the engine's TypeError for a property read on
  \<open>undefined\<close>, an exception of a required module, or the error \<open>fs.writeFile\<close> hands to its
  callback (with its code, such as ENOENT).\<close>

datatype error = TypeError | Thrown string | IOError string

text \<open>
  The modules the printer requires and the part of the language it relies on, as
  parameters:
  \<^item> \<open>generateHTML\<close>: \<open>new ReportGenerator().generateHTML(results, {inline: true})\<close>;
  \<^item> \<open>getFormatter name v\<close>: \<open>Formatter.getByName(name).getFormatter('pretty')(v)\<close>;
  \<^item> \<open>number_repr\<close>: the string of a number that is not an integer up to \<open>2^53\<close>
    (the shortest decimal that reads back as the same double);
  \<^item> \<open>own_keys\<close>: the own keys of \<open>results.audits\<close> in property order, which the map
    does not record.
\<close>

record host =
  generateHTML :: "Results \<Rightarrow> error + string"
  getFormatter :: "string \<Rightarrow> string \<Rightarrow> error + string"
  number_repr :: "rat \<Rightarrow> string"
  own_keys :: "(string \<rightharpoonup> AuditResult) \<Rightarrow> string list"

section \<open>Strings and numbers\<close>

definition newline :: string where
  "newline = [CHR 0x0A]"

definition green :: string where
  "green = CHR 0x1B # ''[32m''"

definition red :: string where
  "red = CHR 0x1B # ''[31m''"

definition yellow :: string where
  "yellow = CHR 0x1B # ''[33m''"

definition purple :: string where
  "purple = CHR 0x1B # ''[95m''"

definition reset :: string where
  "reset = CHR 0x1B # ''[0m''"

definition bold :: string where
  "bold = CHR 0x1B # ''[1m''"

text \<open>U+2713 CHECK MARK, U+2718 HEAVY BALLOT X, U+25AB WHITE SMALL SQUARE and
  twice U+2500 BOX DRAWINGS LIGHT HORIZONTAL, in UTF-8.\<close>

definition check_glyph :: string where
  "check_glyph = [CHR 0xE2, CHR 0x9C, CHR 0x93]"

definition fail_glyph :: string where
  "fail_glyph = [CHR 0xE2, CHR 0x9C, CHR 0x98]"

definition square_glyph :: string where
  "square_glyph = [CHR 0xE2, CHR 0x96, CHR 0xAB]"

definition dashes :: string where
  "dashes = [CHR 0xE2, CHR 0x94, CHR 0x80, CHR 0xE2, CHR 0x94, CHR 0x80]"

definition digit :: "nat \<Rightarrow> char" where
  "digit n = ''0123456789'' ! (n mod 10)"

fun decimal :: "nat \<Rightarrow> string" where
  "decimal n = (if n < 10 then [digit n] else decimal (n div 10) @ [digit n])"

declare decimal.simps [simp del]

text \<open>\<open>`${x}`\<close> for a number \<open>x\<close>: the decimal digits of an integer up to \<open>2^53\<close>, the
  range in which every integer is a double and is printed with all its digits.\<close>

definition Number_toString :: "host \<Rightarrow> rat \<Rightarrow> string" where
  "Number_toString h x =
     (if x = of_int \<lfloor>x\<rfloor> \<and> \<bar>x\<bar> \<le> 2 ^ 53
      then (if x < 0 then ''-'' else []) @ decimal (nat \<bar>\<lfloor>x\<rfloor>\<bar>)
      else number_repr h x)"

text \<open>\<open>x.toFixed(0)\<close>: the sign, then the nearest integer to \<open>\<bar>x\<bar>\<close>, the larger one at a
  tie; from \<open>10^21\<close> on, the string of the number.\<close>

definition toFixed0 :: "host \<Rightarrow> rat \<Rightarrow> string" where
  "toFixed0 h x =
     (let s = (if x < 0 then ''-'' else []); a = \<bar>x\<bar>
      in if 10 ^ 21 \<le> a then s @ Number_toString h a
         else s @ decimal (nat \<lfloor>a + 1 / 2\<rfloor>))"

text \<open>The name of a number that is not finite, as \<open>`${x}`\<close> and \<open>x.toFixed(0)\<close> give it.\<close>

fun nonfinite_toString :: "nonfinite \<Rightarrow> string" where
  "nonfinite_toString NaN = ''NaN''"
| "nonfinite_toString PosInfinity = ''Infinity''"
| "nonfinite_toString NegInfinity = ''-Infinity''"

subsection \<open>Doubles\<close>

text \<open>
  The double nearest a real number (IEEE 754 binary64, round to nearest, ties to even).
  \<open>floor_log2 x\<close> is the exponent \<open>e\<close> with \<open>2^e \<le> x < 2^(e+1)\<close> of a positive \<open>x\<close>; a
  double has 53 significant bits, so near \<open>x\<close> the doubles are the multiples of
  \<open>2^(e-52)\<close>, and of \<open>2^(-1074)\<close> below \<open>2^(-1022)\<close>. From \<open>2^1024 - 2^970\<close> on, the
  nearest double is an infinity.
\<close>

definition floor_log2 :: "rat \<Rightarrow> int" where
  "floor_log2 x =
     (case quotient_of x of
        (p, q) \<Rightarrow> (let d = bitlen p - bitlen q in if 2 powi d \<le> x then d else d - 1))"

definition round_half_even :: "rat \<Rightarrow> int" where
  "round_half_even x =
     (let f = \<lfloor>x\<rfloor>; r = x - of_int f
      in if r < 1 / 2 then f else if 1 / 2 < r then f + 1 else if even f then f else f + 1)"

definition round_double :: "rat \<Rightarrow> rat" where
  "round_double x =
     (if x = 0 then 0
      else (let e = max (floor_log2 \<bar>x\<bar>) (- 1022); u = 2 powi (e - 52)
            in of_int (round_half_even (x / u)) * u))"

definition to_double :: "rat \<Rightarrow> rat + nonfinite" where
  "to_double x =
     (if 2 ^ 1024 - 2 ^ 970 \<le> \<bar>x\<bar> then Inr (if x < 0 then NegInfinity else PosInfinity)
      else Inl (round_double x))"

section \<open>The mode registry\<close>

text \<open>
  \<open>OutputMode[mode]\<close> for a mode name. \<open>None\<close> stands for every value that is none of the
  three discriminants: \<open>undefined\<close> for an unknown name, the name a reverse key
  (\<open>"0"\<close>, \<open>"1"\<close>, \<open>"2"\<close>) gives, and an inherited property of the enum object. None of
  them is \<open>===\<close> to \<open>OutputMode.html\<close> or \<open>OutputMode.json\<close>.
\<close>

definition OutputMode_of :: "string \<Rightarrow> OutputMode option" where
  "OutputMode_of mode =
     (if mode = ''pretty'' then Some pretty
      else if mode = ''json'' then Some json
      else if mode = ''html'' then Some html
      else None)"

text \<open>\<open>OutputMode[d]\<close> for a discriminant.\<close>

fun OutputMode_name :: "OutputMode \<Rightarrow> string" where
  "OutputMode_name pretty = ''pretty''"
| "OutputMode_name json = ''json''"
| "OutputMode_name html = ''html''"

definition GetValidOutputOptions :: "string list" where
  "GetValidOutputOptions =
     [OutputMode_name pretty, OutputMode_name json, OutputMode_name html]"

section \<open>The score colorizer\<close>

text \<open>Of the numbers that are not finite only \<open>Infinity\<close> is greater than 45 and than 75.\<close>

definition formatAggregationResultItem :: "host \<Rightarrow> score \<Rightarrow> string option \<Rightarrow> string" where
  "formatAggregationResultItem h sc suffix' =
     (let suffix' = (case suffix' of None \<Rightarrow> [] | Some s \<Rightarrow> s)
      in case sc of
           SBool b \<Rightarrow>
             (let check = green @ check_glyph @ reset;
                  fail = red @ fail_glyph @ reset
              in if b then check else fail)
         | SStr s \<Rightarrow> purple @ s @ reset
         | SNum x \<Rightarrow>
             (let colorChoice = red;
                  colorChoice = (if x > 45 then yellow else colorChoice);
                  colorChoice = (if x > 75 then green else colorChoice)
              in colorChoice @ Number_toString h x @ suffix' @ reset)
         | SNonFinite n \<Rightarrow>
             (let colorChoice = red;
                  colorChoice = (if n = PosInfinity then yellow else colorChoice);
                  colorChoice = (if n = PosInfinity then green else colorChoice)
              in colorChoice @ nonfinite_toString n @ suffix' @ reset))"

section \<open>JSON.stringify\<close>

text \<open>
  Modelled from the spec: \<open>JSON.stringify(value, null, 2)\<close> is a built-in of the language
  that the source calls and does not define; it is modelled from ECMAScript
  (SerializeJSONProperty, SerializeJSONObject, SerializeJSONArray, QuoteJSONString), for
  the values a \<open>Results\<close> tree holds.

  A value: \<open>null\<close>, a boolean, a finite number, a number that is not finite, a string,
  an array, or an object as its own enumerable properties in property order.
\<close>

datatype jsv =
    JNull | JBool bool | JNum rat | JNonFinite nonfinite | JStr string
  | JArr "jsv list" | JObj "(string \<times> jsv) list"

definition hex_digit :: "nat \<Rightarrow> char" where
  "hex_digit n = ''0123456789abcdef'' ! (n mod 16)"

text \<open>QuoteJSONString: the short escapes, \<open>\<^verbatim>\<open>\u00XX\<close>\<close> for the other control characters,
  every other character as it is.\<close>

definition quote_char :: "char \<Rightarrow> string" where
  "quote_char c =
     (if c = CHR 0x08 then [CHR 0x5C, CHR ''b'']
      else if c = CHR 0x09 then [CHR 0x5C, CHR ''t'']
      else if c = CHR 0x0A then [CHR 0x5C, CHR ''n'']
      else if c = CHR 0x0C then [CHR 0x5C, CHR ''f'']
      else if c = CHR 0x0D then [CHR 0x5C, CHR ''r'']
      else if c = CHR 0x22 then [CHR 0x5C, CHR 0x22]
      else if c = CHR 0x5C then [CHR 0x5C, CHR 0x5C]
      else if (of_char c :: nat) < 32
      then [CHR 0x5C, CHR ''u'', CHR ''0'', CHR ''0'', hex_digit (of_char c div 16),
            hex_digit (of_char c)]
      else [c])"

definition QuoteJSONString :: "string \<Rightarrow> string" where
  "QuoteJSONString s = [CHR 0x22] @ concat (map quote_char s) @ [CHR 0x22]"

fun join :: "string \<Rightarrow> string list \<Rightarrow> string" where
  "join sep [] = []"
| "join sep [x] = x"
| "join sep (x # y # ys) = x @ sep @ join sep (y # ys)"

text \<open>The gap of the third argument \<open>2\<close>: two spaces.\<close>

definition gap :: string where
  "gap = ''  ''"

text \<open>SerializeJSONProperty at the indentation \<open>indent\<close>. A number that is not finite is
  \<open>null\<close>; an empty array or object has no line break.\<close>

fun stringify :: "host \<Rightarrow> string \<Rightarrow> jsv \<Rightarrow> string" where
  "stringify h indent JNull = ''null''"
| "stringify h indent (JBool b) = (if b then ''true'' else ''false'')"
| "stringify h indent (JNum x) = Number_toString h x"
| "stringify h indent (JNonFinite n) = ''null''"
| "stringify h indent (JStr s) = QuoteJSONString s"
| "stringify h indent (JArr vs) =
     (let stepback = indent; indent = indent @ gap;
          partial = map (stringify h indent) vs
      in if partial = [] then ''[]''
         else ''['' @ [CHR 0x0A] @ indent @ join ('','' @ [CHR 0x0A] @ indent) partial
                @ [CHR 0x0A] @ stepback @ '']'')"
| "stringify h indent (JObj ps) =
     (let stepback = indent; indent = indent @ gap;
          partial = map (\<lambda>p. QuoteJSONString (fst p) @ '': '' @ stringify h indent (snd p)) ps
      in if partial = [] then ''{}''
         else ''{'' @ [CHR 0x0A] @ indent @ join ('','' @ [CHR 0x0A] @ indent) partial
                @ [CHR 0x0A] @ stepback @ ''}'')"

text \<open>
  A \<open>Results\<close> tree as a value. The properties stand in the order of the interfaces
  (\<open>JSON.stringify\<close> takes the order of the object, whatever it is); an absent
  \<open>extendedInfo\<close> is no property; the properties of \<open>audits\<close> are its own keys in the
  order \<open>own_keys\<close> gives.
\<close>

definition score_to_js :: "score \<Rightarrow> jsv" where
  "score_to_js sc =
     (case sc of
        SBool b \<Rightarrow> JBool b
      | SNum x \<Rightarrow> JNum x
      | SNonFinite n \<Rightarrow> JNonFinite n
      | SStr s \<Rightarrow> JStr s)"

definition audit_to_js :: "AuditResult \<Rightarrow> jsv" where
  "audit_to_js a =
     JObj ([(''displayValue'', JStr (displayValue a)),
            (''debugString'', JStr (debugString a)),
            (''score'', score_to_js (AuditResult.score a)),
            (''description'', JStr (description a))]
           @ (case extendedInfo a of
                None \<Rightarrow> []
              | Some info \<Rightarrow>
                  [(''extendedInfo'',
                    JObj [(''value'', JStr (value' info)),
                          (''formatter'', JStr (formatter info))])]))"

definition subItem_to_js :: "subItem \<Rightarrow> jsv" where
  "subItem_to_js subitem =
     (case subitem of Inline a \<Rightarrow> audit_to_js a | Ref key \<Rightarrow> JStr key)"

definition item_to_js :: "AggregationResultItem \<Rightarrow> jsv" where
  "item_to_js item =
     JObj [(''overall'', JNum (overall item)),
           (''name'', JStr (AggregationResultItem.name item)),
           (''scored'', JBool (scored item)),
           (''subItems'', JArr (map subItem_to_js (subItems item)))]"

definition aggregation_to_js :: "Aggregation \<Rightarrow> jsv" where
  "aggregation_to_js aggregation =
     JObj [(''name'', JStr (Aggregation.name aggregation)),
           (''score'', JArr (map item_to_js (Aggregation.score aggregation)))]"

definition audits_to_js :: "host \<Rightarrow> (string \<rightharpoonup> AuditResult) \<Rightarrow> jsv" where
  "audits_to_js h m =
     JObj (concat (map (\<lambda>key. case m key of
                                 None \<Rightarrow> []
                               | Some a \<Rightarrow> [(key, audit_to_js a)])
                       (own_keys h m)))"

definition results_to_js :: "host \<Rightarrow> Results \<Rightarrow> jsv" where
  "results_to_js h results =
     JObj [(''url'', JStr (url results)),
           (''aggregations'', JArr (map aggregation_to_js (aggregations results))),
           (''audits'', audits_to_js h (audits results)),
           (''lighthouseVersion'', JStr (lighthouseVersion results))]"

text \<open>\<open>JSON.stringify(results, null, 2)\<close>.\<close>

definition JSON_stringify :: "host \<Rightarrow> Results \<Rightarrow> string" where
  "JSON_stringify h results = stringify h [] (results_to_js h results)"

section \<open>The pretty renderer and the output composer\<close>

text \<open>\<open>xs.forEach(body)\<close> where the body updates the variable \<open>output\<close> and may throw.\<close>

fun forEach :: "('a \<Rightarrow> string \<Rightarrow> error + string) \<Rightarrow> 'a list \<Rightarrow> string \<Rightarrow> error + string" where
  "forEach body [] output = Inr output"
| "forEach body (x # xs) output =
     (case body x output of Inl e \<Rightarrow> Inl e | Inr output' \<Rightarrow> forEach body xs output')"

text \<open>The property names of \<open>Object.prototype\<close> (ECMAScript, with its Annex B), which
  every plain object inherits.\<close>

definition Object_prototype_keys :: "string list" where
  "Object_prototype_keys =
     [''constructor'', ''hasOwnProperty'', ''isPrototypeOf'', ''propertyIsEnumerable'',
      ''toLocaleString'', ''toString'', ''valueOf'', ''__proto__'', ''__defineGetter__'',
      ''__defineSetter__'', ''__lookupGetter__'', ''__lookupSetter__'']"

text \<open>What \<open>results.audits[key]\<close> evaluates to: an own property, a property inherited
  from \<open>Object.prototype\<close> (a function, or the prototype itself for \<open>__proto__\<close>), or
  \<open>undefined\<close>.\<close>

datatype property = Own AuditResult | Inherited | Undefined

definition audits_lookup :: "Results \<Rightarrow> string \<Rightarrow> property" where
  "audits_lookup results key =
     (case audits results key of
        Some a \<Rightarrow> Own a
      | None \<Rightarrow> if key \<in> set Object_prototype_keys then Inherited else Undefined)"

text \<open>The body of \<open>item.subItems.forEach(subitem => ...)\<close>. Reading \<open>subscore.score\<close> of an
  \<open>undefined\<close> subscore throws a TypeError. An inherited property has none of the fields
  that are read: its \<open>score\<close> is \<open>undefined\<close>, which the colorizer (not a boolean, not a
  number) prints as \<open>undefined\<close> in the informational colour; its \<open>description\<close> prints
  as \<open>undefined\<close>; its \<open>displayValue\<close>, \<open>debugString\<close> and \<open>extendedInfo\<close> are falsy.\<close>

definition subitem_body :: "host \<Rightarrow> Results \<Rightarrow> subItem \<Rightarrow> string \<Rightarrow> error + string" where
  "subitem_body h results subitem output =
     (case (case subitem of Ref key \<Rightarrow> audits_lookup results key | Inline a \<Rightarrow> Own a) of
        Undefined \<Rightarrow> Inl TypeError
      | Inherited \<Rightarrow>
          Inr (output @ '' '' @ dashes @ '' '' @ purple @ ''undefined'' @ reset
                 @ '' '' @ ''undefined'' @ newline)
      | Own subscore \<Rightarrow>
          (let lineItem = '' '' @ dashes @ '' ''
                 @ formatAggregationResultItem h (AuditResult.score subscore) None
                 @ '' '' @ description subscore;
               lineItem = (if displayValue subscore \<noteq> []
                           then lineItem @ '' ('' @ bold @ displayValue subscore @ reset @ '')''
                           else lineItem);
               output = output @ lineItem @ newline;
               output = (if debugString subscore \<noteq> []
                         then output @ ''    '' @ debugString subscore @ newline
                         else output)
           in case extendedInfo subscore of
                None \<Rightarrow> Inr output
              | Some info \<Rightarrow>
                  if value' info \<noteq> []
                  then (case getFormatter h (formatter info) (value' info) of
                          Inl e \<Rightarrow> Inl e
                        | Inr s \<Rightarrow> Inr (output @ s))
                  else Inr output))"

text \<open>The body of \<open>aggregation.score.forEach(item => ...)\<close>. The product
  \<open>item.overall * 100\<close> is a double; the percentage is the \<^emph>\<open>string\<close> that \<open>toFixed\<close>
  returns.\<close>

definition item_body :: "host \<Rightarrow> Results \<Rightarrow> AggregationResultItem \<Rightarrow> string \<Rightarrow> error + string" where
  "item_body h results item output =
     (let percentage = (case to_double (overall item * 100) of
                          Inl product \<Rightarrow> toFixed0 h product
                        | Inr n \<Rightarrow> nonfinite_toString n);
          output = (if AggregationResultItem.name item \<noteq> []
                    then output @ bold @ AggregationResultItem.name item @ reset @ '': ''
                           @ (if scored item
                              then formatAggregationResultItem h (SStr percentage) (Some ''%'')
                              else [])
                           @ newline
                    else output)
      in case forEach (subitem_body h results) (subItems item) output of
           Inl e \<Rightarrow> Inl e
         | Inr output \<Rightarrow> Inr (output @ newline))"

text \<open>The body of \<open>results.aggregations.forEach(aggregation => ...)\<close>.\<close>

definition aggregation_body :: "host \<Rightarrow> Results \<Rightarrow> Aggregation \<Rightarrow> string \<Rightarrow> error + string" where
  "aggregation_body h results aggregation output =
     (let output = output @ square_glyph @ '' '' @ bold @ Aggregation.name aggregation
                     @ reset @ newline @ newline
      in forEach (item_body h results) (Aggregation.score aggregation) output)"

text \<open>\<open>createOutput(results, outputMode)\<close>; the second argument is \<open>OutputMode[mode]\<close>.\<close>

definition createOutput :: "host \<Rightarrow> Results \<Rightarrow> OutputMode option \<Rightarrow> error + string" where
  "createOutput h results outputMode =
     (if outputMode = Some html then generateHTML h results
      else if outputMode = Some json then Inr (JSON_stringify h results)
      else
        (let version = lighthouseVersion results;
             output = newline @ newline @ bold @ ''Lighthouse ('' @ version @ '') results:''
                        @ reset @ '' '' @ url results @ newline @ newline
         in forEach (aggregation_body h results) (aggregations results) output))"

section \<open>Delivery\<close>

text \<open>
  The world the printer acts on: the bytes written to standard output, the files by path,
  the error the file system answers to writing given data at a given path (\<open>None\<close>:
  the write succeeds), and the calls of the diagnostic logger. A failed write leaves the
  files as they were.
\<close>

datatype log_event = Warn_no_output_path | Log_written "OutputMode option" string

record world =
  stdout :: string
  files :: "string \<rightharpoonup> string"
  fs_error :: "string \<Rightarrow> string \<Rightarrow> error option"
  log_events :: "log_event list"

text \<open>The state a promise settles in, once the event loop has run; \<open>Pending\<close> when it
  never settles.\<close>

datatype 'a promise = Resolved 'a | Rejected error | Pending

text \<open>\<open>checkOutputPath(path)\<close>; \<open>None\<close> is an \<open>undefined\<close> path.\<close>

definition checkOutputPath :: "string option \<Rightarrow> world \<Rightarrow> string \<times> world" where
  "checkOutputPath path w =
     (case path of
        None \<Rightarrow> (''stdout'', w\<lparr>log_events := log_events w @ [Warn_no_output_path]\<rparr>)
      | Some p \<Rightarrow>
          if p = [] then (''stdout'', w\<lparr>log_events := log_events w @ [Warn_no_output_path]\<rparr>)
          else (p, w))"

definition writeToStdout :: "string \<Rightarrow> world \<Rightarrow> unit promise \<times> world" where
  "writeToStdout output w = (Resolved (), w\<lparr>stdout := stdout w @ output @ newline\<rparr>)"

definition writeFile :: "string \<Rightarrow> string \<Rightarrow> OutputMode option \<Rightarrow> world \<Rightarrow> unit promise \<times> world" where
  "writeFile filePath output outputMode w =
     (case fs_error w filePath output of
        Some err \<Rightarrow> (Rejected err, w)
      | None \<Rightarrow>
          (Resolved (),
           w\<lparr>files := (files w)(filePath \<mapsto> output),
             log_events := log_events w @ [Log_written outputMode filePath]\<rparr>))"

text \<open>\<open>write(results, mode, path)\<close> (\<open>write\<close> is an Isar keyword). An exception thrown in
  the executor rejects the promise; the standard-output branch has no \<open>catch\<close>.\<close>

definition write_results ::
  "host \<Rightarrow> Results \<Rightarrow> string \<Rightarrow> string option \<Rightarrow> world \<Rightarrow> Results promise \<times> world" where
  "write_results h results mode path w =
     (case checkOutputPath path w of
        (outputPath, w1) \<Rightarrow>
          (case createOutput h results (OutputMode_of mode) of
             Inl e \<Rightarrow> (Rejected e, w1)
           | Inr output \<Rightarrow>
               if outputPath = ''stdout''
               then (case writeToStdout output w1 of
                       (Resolved u, w2) \<Rightarrow> (Resolved results, w2)
                     | (Rejected err, w2) \<Rightarrow> (Pending, w2)
                     | (Pending, w2) \<Rightarrow> (Pending, w2))
               else (case writeFile outputPath output (OutputMode_of mode) w1 of
                       (Resolved u, w2) \<Rightarrow> (Resolved results, w2)
                     | (Rejected err, w2) \<Rightarrow> (Rejected err, w2)
                     | (Pending, w2) \<Rightarrow> (Pending, w2))))"

section \<open>JSON.parse\<close>



















section \<open>Notions the properties are stated with\<close>

text \<open>A string subItem for which \<open>results.audits[key]\<close> is \<open>undefined\<close>: the key is no own
  property of \<open>audits\<close> and no property of \<open>Object.prototype\<close>.\<close>

definition unresolved :: "Results \<Rightarrow> subItem \<Rightarrow> bool" where
  "unresolved results subitem =
     (case subitem of Ref key \<Rightarrow> audits_lookup results key = Undefined | Inline a \<Rightarrow> False)"

definition has_unresolved :: "Results \<Rightarrow> bool" where
  "has_unresolved results =
     list_ex (\<lambda>aggregation.
        list_ex (\<lambda>item. list_ex (unresolved results) (subItems item))
          (Aggregation.score aggregation))
       (aggregations results)"

text \<open>The tree in which every string subItem that \<open>results.audits\<close> holds is replaced by
  the audit it names.\<close>

definition inline_subItem :: "Results \<Rightarrow> subItem \<Rightarrow> subItem" where
  "inline_subItem results subitem =
     (case subitem of
        Ref key \<Rightarrow> (case audits results key of None \<Rightarrow> Ref key | Some a \<Rightarrow> Inline a)
      | Inline a \<Rightarrow> Inline a)"

definition inline_item :: "Results \<Rightarrow> AggregationResultItem \<Rightarrow> AggregationResultItem" where
  "inline_item results item = item\<lparr>subItems := map (inline_subItem results) (subItems item)\<rparr>"

definition inline_aggregation :: "Results \<Rightarrow> Aggregation \<Rightarrow> Aggregation" where
  "inline_aggregation results aggregation =
     aggregation\<lparr>score := map (inline_item results) (Aggregation.score aggregation)\<rparr>"

definition inline_results :: "Results \<Rightarrow> Results" where
  "inline_results results =
     results\<lparr>aggregations := map (inline_aggregation results) (aggregations results)\<rparr>"









section \<open>Example inputs\<close>

text \<open>The double that the literal \<open>0.8\<close> denotes.\<close>

definition double_0_8 :: rat where
  "double_0_8 = 3602879701896397 / 4503599627370496"

text \<open>A host whose formatters echo their value, which prints the double of \<open>0.8\<close> as
  \<open>0.8\<close> (and a placeholder for the other numbers it is asked for), and which knows the
  one key of the trees below; and two worlds: one where every write succeeds and one
  where every write fails.\<close>

definition host0 :: host where
  "host0 =
     \<lparr>generateHTML = (\<lambda>results. Inr ''<html></html>''),
      getFormatter = (\<lambda>formatter v. Inr v),
      number_repr = (\<lambda>x. if x = double_0_8 then ''0.8'' else ''?''),
      own_keys = (\<lambda>m. if m ''a90'' = None then [] else [''a90''])\<rparr>"

definition world0 :: world where
  "world0 = \<lparr>stdout = [], files = Map.empty, fs_error = (\<lambda>p d. None), log_events = []\<rparr>"

definition world_enoent :: world where
  "world_enoent =
     \<lparr>stdout = [], files = Map.empty, fs_error = (\<lambda>p d. Some (IOError ''ENOENT'')),
      log_events = []\<rparr>"

definition audit90 :: AuditResult where
  "audit90 =
     \<lparr>displayValue = [], debugString = [], score = SNum 90, description = ''desc'',
      extendedInfo = None\<rparr>"

text \<open>The tree of the minimal pretty render: one aggregation \<open>Cat\<close> with one scored item
  \<open>Item\<close> of overall 0.8 and one inline audit of score 90.\<close>

definition results_min :: Results where
  "results_min =
     \<lparr>url = ''http://x'',
      aggregations =
        [\<lparr>Aggregation.name = ''Cat'',
          score = [\<lparr>overall = double_0_8, name = ''Item'', scored = True,
                    subItems = [Inline audit90]\<rparr>]\<rparr>],
      audits = Map.empty,
      lighthouseVersion = ''1.0''\<rparr>"

text \<open>The same tree with the audit behind the key \<open>a90\<close>, and with the item unscored.\<close>

definition results_ref :: Results where
  "results_ref =
     \<lparr>url = ''http://x'',
      aggregations =
        [\<lparr>Aggregation.name = ''Cat'',
          score = [\<lparr>overall = double_0_8, name = ''Item'', scored = False,
                    subItems = [Ref ''a90'']\<rparr>]\<rparr>],
      audits = [''a90'' \<mapsto> audit90],
      lighthouseVersion = ''1.0''\<rparr>"

text \<open>A tree whose only subItem names a key that \<open>audits\<close> does not hold.\<close>

definition results_dangling :: Results where
  "results_dangling =
     \<lparr>url = ''http://x'',
      aggregations =
        [\<lparr>Aggregation.name = ''Cat'',
          score = [\<lparr>overall = double_0_8, name = ''Item'', scored = True,
                    subItems = [Ref ''missing'']\<rparr>]\<rparr>],
      audits = Map.empty,
      lighthouseVersion = ''1.0''\<rparr>"



text \<open>The string the pretty renderer composes for \<open>results_min\<close>.\<close>

definition pretty_min :: string where
  "pretty_min =
     newline @ newline @ bold @ ''Lighthouse (1.0) results:'' @ reset @ '' http://x''
       @ newline @ newline
       @ square_glyph @ '' '' @ bold @ ''Cat'' @ reset @ newline @ newline
       @ bold @ ''Item'' @ reset @ '': '' @ purple @ ''80'' @ reset @ newline
       @ '' '' @ dashes @ '' '' @ green @ ''90'' @ reset @ '' desc'' @ newline
       @ newline"

section \<open>Numbers and strings of the examples\<close>

lemma decimal_two_digits:
  "decimal 45 = ''45''" "decimal 46 = ''46''" "decimal 75 = ''75''" "decimal 76 = ''76''"
  "decimal 80 = ''80''" "decimal 90 = ''90''" "decimal 60 = ''60''"
  by (simp_all add: decimal.simps digit_def)

lemma Number_toString_nat:
  "n \<le> 2 ^ 53 \<Longrightarrow> Number_toString h (of_nat n) = decimal n"
proof -
  assume "n \<le> 2 ^ 53"
  then have "(of_nat n :: rat) \<le> of_nat (2 ^ 53)"
    by (simp only: of_nat_le_iff)
  then show ?thesis
    by (simp add: Number_toString_def)
qed

lemma toFixed0_nat:
  "n < 10 ^ 21 \<Longrightarrow> toFixed0 h (of_nat n) = decimal n"
proof -
  assume n: "n < 10 ^ 21"
  have "\<lfloor>(of_nat n :: rat) + 1 / 2\<rfloor> = int n"
    by (rule floor_unique) simp_all
  moreover have "\<not> (10 ^ 21 \<le> (of_nat n :: rat))"
    using n by (metis of_nat_less_iff of_nat_numeral of_nat_power not_le)
  ultimately show ?thesis
    by (simp add: toFixed0_def)
qed

lemma toFixed0_80: "toFixed0 h 80 = ''80''"
  using toFixed0_nat [of 80 h] by (simp add: decimal_two_digits)

lemma product_0_8: "to_double (double_0_8 * 100) = Inl 80"
  by code_simp

lemma Number_toString_90: "Number_toString h 90 = ''90''"
  using Number_toString_nat [of 90 h] by (simp add: decimal_two_digits)

lemma colours_distinct: "red \<noteq> yellow" "yellow \<noteq> green" "red \<noteq> green"
  by (simp_all add: red_def yellow_def green_def)

lemma format_90: "formatAggregationResultItem h (SNum 90) None = green @ ''90'' @ reset"
  by (simp add: formatAggregationResultItem_def Number_toString_90)

lemma format_string:
  "formatAggregationResultItem h (SStr s) sfx = purple @ s @ reset"
  by (simp add: formatAggregationResultItem_def)

lemma subitem_body_audit90:
  "subitem_body h results (Inline audit90) output =
     Inr (output @ '' '' @ dashes @ '' '' @ green @ ''90'' @ reset @ '' desc'' @ newline)"
  by (simp add: subitem_body_def audit90_def format_90)

lemma createOutput_results_min: "createOutput h results_min (Some pretty) = Inr pretty_min"
  by (simp add: createOutput_def results_min_def aggregation_body_def item_body_def
      subitem_body_audit90 product_0_8 toFixed0_80 format_string pretty_min_def)

lemma pretty_min_bytes:
  "pretty_min = [CHR 0x0A, CHR 0x0A, CHR 0x1B] @ ''[1mLighthouse (1.0) results:'' @ [CHR 0x1B]
     @ ''[0m http://x'' @ [CHR 0x0A, CHR 0x0A, CHR 0xE2, CHR 0x96, CHR 0xAB] @ '' '' @ [CHR 0x1B]
     @ ''[1mCat'' @ [CHR 0x1B] @ ''[0m'' @ [CHR 0x0A, CHR 0x0A, CHR 0x1B] @ ''[1mItem''
     @ [CHR 0x1B] @ ''[0m: '' @ [CHR 0x1B] @ ''[95m80'' @ [CHR 0x1B] @ ''[0m''
     @ [CHR 0x0A] @ '' '' @ [CHR 0xE2, CHR 0x94, CHR 0x80, CHR 0xE2, CHR 0x94, CHR 0x80] @ '' ''
     @ [CHR 0x1B] @ ''[32m90'' @ [CHR 0x1B] @ ''[0m desc'' @ [CHR 0x0A, CHR 0x0A]"
  by (simp add: pretty_min_def newline_def bold_def reset_def square_glyph_def purple_def
      dashes_def green_def)

section \<open>The loops\<close>

lemma forEach_map:
  "forEach body (map g xs) out = forEach (\<lambda>x. body (g x)) xs out"
  by (induction xs arbitrary: out) (simp_all split: sum.split)

lemma forEach_throws:
  "list_ex (\<lambda>x. \<forall>out. \<exists>e. body x out = Inl e) xs \<Longrightarrow> \<exists>e. forEach body xs out = Inl e"
proof (induction xs arbitrary: out)
  case Nil
  then show ?case by simp
next
  case (Cons x xs)
  show ?case
  proof (cases "body x out")
    case (Inl e)
    then show ?thesis by simp
  next
    case (Inr out')
    have "\<not> (\<forall>t. \<exists>e. body x t = Inl e)"
    proof
      assume "\<forall>t. \<exists>e. body x t = Inl e"
      then obtain e where "body x out = Inl e" by blast
      with Inr show False by simp
    qed
    with Cons.prems have "list_ex (\<lambda>x. \<forall>out. \<exists>e. body x out = Inl e) xs"
      by simp
    from Cons.IH [OF this, of out'] Inr show ?thesis by simp
  qed
qed

lemma forEach_error:
  assumes "\<And>x out e. body x out = Inl e \<Longrightarrow> P e"
    and "forEach body xs out = Inl e"
  shows "P e"
  using assms(2)
proof (induction xs arbitrary: out)
  case Nil
  then show ?case by simp
next
  case (Cons x xs)
  then show ?case
    by (cases "body x out") (auto dest: assms(1))
qed

lemma forEach_returns:
  "(\<And>x out. x \<in> set xs \<Longrightarrow> \<exists>out'. body x out = Inr out') \<Longrightarrow>
   \<exists>out'. forEach body xs out0 = Inr out'"
proof (induction xs arbitrary: out0)
  case Nil
  then show ?case by simp
next
  case (Cons x xs)
  from Cons.prems [of x out0] obtain out1 where "body x out0 = Inr out1"
    by auto
  moreover have "\<exists>out'. forEach body xs out1 = Inr out'"
    by (rule Cons.IH) (simp add: Cons.prems)
  ultimately show ?case by simp
qed

section \<open>Unresolved references\<close>

lemma sum_case_Inl_iff:
  "(case s of Inl e \<Rightarrow> Inl e | Inr out \<Rightarrow> Inr (f out)) = Inl e' \<longleftrightarrow> s = Inl e'"
  by (cases s) auto

lemma sum_case_Inr_iff:
  "(\<exists>r. (case s of Inl e \<Rightarrow> Inl e | Inr out \<Rightarrow> Inr (f out)) = Inr r) \<longleftrightarrow> (\<exists>out. s = Inr out)"
  by (cases s) auto

lemma subitem_body_unresolved:
  "unresolved results subitem \<Longrightarrow> subitem_body h results subitem out = Inl TypeError"
  by (cases subitem) (simp_all add: unresolved_def subitem_body_def)

lemma item_body_unresolved:
  assumes "list_ex (unresolved results) (subItems item)"
  shows "\<exists>e. item_body h results item out = Inl e"
proof -
  from assms obtain x where x: "x \<in> set (subItems item)" "unresolved results x"
    by (auto simp: list_ex_iff)
  have "\<forall>out. \<exists>e. subitem_body h results x out = Inl e"
    by (simp add: subitem_body_unresolved [OF x(2)])
  with x(1) have "list_ex (\<lambda>x. \<forall>out. \<exists>e. subitem_body h results x out = Inl e) (subItems item)"
    unfolding list_ex_iff by (rule bexI [rotated])
  from forEach_throws [OF this] show ?thesis
    by (simp add: item_body_def Let_def sum_case_Inl_iff)
qed

lemma aggregation_body_unresolved:
  assumes "list_ex (\<lambda>item. list_ex (unresolved results) (subItems item))
             (Aggregation.score aggregation)"
  shows "\<exists>e. aggregation_body h results aggregation out = Inl e"
proof -
  from assms obtain x where x: "x \<in> set (Aggregation.score aggregation)"
    "list_ex (unresolved results) (subItems x)"
    by (auto simp: list_ex_iff)
  have "\<forall>out. \<exists>e. item_body h results x out = Inl e"
    by (simp add: item_body_unresolved [OF x(2)])
  with x(1) have "list_ex (\<lambda>x. \<forall>out. \<exists>e. item_body h results x out = Inl e)
      (Aggregation.score aggregation)"
    unfolding list_ex_iff by (rule bexI [rotated])
  from forEach_throws [OF this] show ?thesis
    by (simp add: aggregation_body_def)
qed

lemma createOutput_unresolved:
  assumes "has_unresolved results"
  shows "\<exists>e. createOutput h results (Some pretty) = Inl e"
proof -
  from assms obtain x where x: "x \<in> set (aggregations results)"
    "list_ex (\<lambda>item. list_ex (unresolved results) (subItems item)) (Aggregation.score x)"
    by (auto simp: has_unresolved_def list_ex_iff)
  have "\<forall>out. \<exists>e. aggregation_body h results x out = Inl e"
    by (simp add: aggregation_body_unresolved [OF x(2)])
  with x(1) have "list_ex (\<lambda>x. \<forall>out. \<exists>e. aggregation_body h results x out = Inl e)
      (aggregations results)"
    unfolding list_ex_iff by (rule bexI [rotated])
  from forEach_throws [OF this] show ?thesis
    by (simp add: createOutput_def)
qed

lemma subitem_body_error:
  assumes "\<And>formatter v. \<exists>s. getFormatter h formatter v = Inr s"
    and "subitem_body h results subitem out = Inl e"
  shows "e = TypeError"
proof (cases "case subitem of Ref key \<Rightarrow> audits_lookup results key | Inline a \<Rightarrow> Own a")
  case Undefined
  with assms(2) show ?thesis by (simp add: subitem_body_def)
next
  case Inherited
  with assms(2) show ?thesis by (simp add: subitem_body_def)
next
  case subscore: (Own subscore)
  show ?thesis
  proof (cases "extendedInfo subscore")
    case None
    with subscore assms(2) show ?thesis by (simp add: subitem_body_def Let_def)
  next
    case (Some info)
    obtain s where "getFormatter h (formatter info) (value' info) = Inr s"
      using assms(1) by blast
    with Some subscore assms(2) show ?thesis
      by (simp add: subitem_body_def Let_def split: if_splits)
  qed
qed

lemma createOutput_error:
  assumes fmt: "\<And>formatter v. \<exists>s. getFormatter h formatter v = Inr s"
    and "createOutput h results (Some pretty) = Inl e"
  shows "e = TypeError"
proof -
  have item: "e' = TypeError" if "item_body h results item out = Inl e'" for item out e'
  proof -
    from that obtain out' where "forEach (subitem_body h results) (subItems item) out' = Inl e'"
      by (simp add: item_body_def Let_def sum_case_Inl_iff)
    then show ?thesis
      by (rule forEach_error [rotated]) (rule subitem_body_error [OF fmt])
  qed
  have agg: "e' = TypeError" if "aggregation_body h results a out = Inl e'" for a out e'
    using that unfolding aggregation_body_def Let_def
    by (rule forEach_error [rotated]) (rule item)
  from assms(2) obtain out where
    "forEach (aggregation_body h results) (aggregations results) out = Inl e"
    by (simp add: createOutput_def)
  then show ?thesis
    by (rule forEach_error [rotated]) (rule agg)
qed

lemma subitem_body_resolved:
  assumes fmt: "\<And>formatter v. \<exists>s. getFormatter h formatter v = Inr s"
    and "\<not> unresolved results subitem"
  shows "\<exists>out'. subitem_body h results subitem out = Inr out'"
proof (cases "case subitem of Ref key \<Rightarrow> audits_lookup results key | Inline a \<Rightarrow> Own a")
  case Undefined
  with assms(2) show ?thesis
    by (cases subitem) (simp_all add: unresolved_def)
next
  case Inherited
  then show ?thesis by (simp add: subitem_body_def)
next
  case subscore: (Own subscore)
  show ?thesis
  proof (cases "extendedInfo subscore")
    case None
    with subscore show ?thesis by (simp add: subitem_body_def Let_def)
  next
    case (Some info)
    obtain s where "getFormatter h (formatter info) (value' info) = Inr s"
      using fmt by blast
    with Some subscore show ?thesis
      by (simp add: subitem_body_def Let_def)
  qed
qed

lemma createOutput_resolved:
  assumes fmt: "\<And>formatter v. \<exists>s. getFormatter h formatter v = Inr s"
    and "\<not> has_unresolved results"
  shows "\<exists>out. createOutput h results (Some pretty) = Inr out"
proof -
  have item: "\<exists>out'. item_body h results item out = Inr out'"
    if "\<not> list_ex (unresolved results) (subItems item)" for item out
  proof -
    have "\<exists>out'. forEach (subitem_body h results) (subItems item) out0 = Inr out'" for out0
      by (rule forEach_returns, rule subitem_body_resolved [OF fmt])
         (use that in \<open>simp add: list_ex_iff\<close>)
    then show ?thesis
      by (simp add: item_body_def Let_def sum_case_Inr_iff)
  qed
  have agg: "\<exists>out'. aggregation_body h results a out = Inr out'"
    if "\<not> list_ex (\<lambda>item. list_ex (unresolved results) (subItems item)) (Aggregation.score a)"
    for a out
    unfolding aggregation_body_def Let_def
    by (rule forEach_returns, rule item) (use that in \<open>simp add: list_ex_iff\<close>)
  show ?thesis
    unfolding createOutput_def Let_def
    by (simp, rule forEach_returns, rule agg)
       (use assms(2) in \<open>simp add: has_unresolved_def list_ex_iff\<close>)
qed

section \<open>Inlining references\<close>

lemma subitem_body_inline:
  "subitem_body h (inline_results results) (inline_subItem results subitem) out =
     subitem_body h results subitem out"
  by (cases subitem)
     (simp_all add: subitem_body_def inline_subItem_def inline_results_def audits_lookup_def
        split: option.split)

lemma item_body_inline:
  "item_body h (inline_results results) (inline_item results item) out =
     item_body h results item out"
proof -
  have "(\<lambda>x. subitem_body h (inline_results results) (inline_subItem results x)) =
        subitem_body h results"
    by (intro ext) (simp add: subitem_body_inline)
  then show ?thesis
    by (simp add: item_body_def inline_item_def forEach_map)
qed

lemma aggregation_body_inline:
  "aggregation_body h (inline_results results) (inline_aggregation results aggregation) out =
     aggregation_body h results aggregation out"
proof -
  have "(\<lambda>x. item_body h (inline_results results) (inline_item results x)) =
        item_body h results"
    by (intro ext) (simp add: item_body_inline)
  then show ?thesis
    by (simp add: aggregation_body_def inline_aggregation_def forEach_map)
qed

lemma createOutput_inline:
  "createOutput h (inline_results results) (Some pretty) = createOutput h results (Some pretty)"
proof -
  have "(\<lambda>x. aggregation_body h (inline_results results) (inline_aggregation results x)) =
        aggregation_body h results"
    by (intro ext) (simp add: aggregation_body_inline)
  moreover have "aggregations (inline_results results) =
      map (inline_aggregation results) (aggregations results)"
    "url (inline_results results) = url results"
    "lighthouseVersion (inline_results results) = lighthouseVersion results"
    by (simp_all add: inline_results_def)
  ultimately show ?thesis
    by (simp add: createOutput_def forEach_map)
qed


section \<open>JSON: strings\<close>






section \<open>Whitespace\<close>








section \<open>Arrays and objects\<close>









section \<open>The round trip of a value\<close>









section \<open>JSON: the integers read back\<close>












section \<open>Doubles and the integers\<close>






section \<open>The round trip of a tree\<close>








section \<open>The numbers of the examples read back\<close>




section \<open>The composer's other modes\<close>

lemma createOutput_json: "createOutput h results (Some json) = Inr (JSON_stringify h results)"
  by (simp add: createOutput_def)

lemma createOutput_html: "createOutput h results (Some html) = generateHTML h results"
  by (simp add: createOutput_def)

section \<open>Delivery\<close>

lemma checkOutputPath_world:
  "stdout (snd (checkOutputPath path w)) = stdout w"
  "files (snd (checkOutputPath path w)) = files w"
  "fs_error (snd (checkOutputPath path w)) = fs_error w"
  by (simp_all add: checkOutputPath_def split: option.split)

lemma OutputMode_of_pretty: "OutputMode_of ''pretty'' = Some pretty"
  by (simp add: OutputMode_of_def)

lemma write_results_throws:
  assumes "createOutput h results (OutputMode_of mode) = Inl e"
  shows "write_results h results mode path w = (Rejected e, snd (checkOutputPath path w))"
proof -
  obtain p w1 where "checkOutputPath path w = (p, w1)"
    by (cases "checkOutputPath path w")
  with assms show ?thesis
    by (simp add: write_results_def)
qed

lemma write_results_stdout:
  assumes "createOutput h results (OutputMode_of mode) = Inr out"
    and "fst (checkOutputPath path w) = ''stdout''"
  shows "write_results h results mode path w =
    (Resolved results, (snd (checkOutputPath path w))\<lparr>stdout := stdout w @ out @ newline\<rparr>)"
proof -
  obtain p w1 where "checkOutputPath path w = (p, w1)"
    by (cases "checkOutputPath path w")
  with assms checkOutputPath_world(1) [of path w] show ?thesis
    by (simp add: write_results_def writeToStdout_def)
qed

lemma write_results_file:
  assumes "createOutput h results (OutputMode_of mode) = Inr out"
    and "fst (checkOutputPath path w) \<noteq> ''stdout''"
    and "fs_error w (fst (checkOutputPath path w)) out = None"
  shows "fst (write_results h results mode path w) = Resolved results"
    and "files (snd (write_results h results mode path w)) =
           (files w)(fst (checkOutputPath path w) \<mapsto> out)"
    and "stdout (snd (write_results h results mode path w)) = stdout w"
proof -
  obtain p w1 where "checkOutputPath path w = (p, w1)"
    by (cases "checkOutputPath path w")
  with assms checkOutputPath_world [of path w]
  show "fst (write_results h results mode path w) = Resolved results"
    and "files (snd (write_results h results mode path w)) =
           (files w)(fst (checkOutputPath path w) \<mapsto> out)"
    and "stdout (snd (write_results h results mode path w)) = stdout w"
    by (simp_all add: write_results_def writeFile_def)
qed

lemma write_results_file_fails:
  assumes "createOutput h results (OutputMode_of mode) = Inr out"
    and "fst (checkOutputPath path w) \<noteq> ''stdout''"
    and "fs_error w (fst (checkOutputPath path w)) out = Some err"
  shows "write_results h results mode path w = (Rejected err, snd (checkOutputPath path w))"
proof -
  obtain p w1 where "checkOutputPath path w = (p, w1)"
    by (cases "checkOutputPath path w")
  with assms checkOutputPath_world [of path w] show ?thesis
    by (simp add: write_results_def writeFile_def)
qed

section \<open>The claims\<close>

text \<open>
  C1, as the code has it: a mode name outside pretty, json and html is not rejected.
  \<open>OutputMode[mode]\<close> is then no discriminant, \<open>createOutput\<close> falls through to the pretty
  renderer, and \<open>write\<close> settles and delivers as it does for the mode \<open>pretty\<close>: the same
  promise state, the same bytes on standard output and in the files.
\<close>

theorem invalid_mode_renders_pretty:
  assumes "mode \<notin> set GetValidOutputOptions"
  shows "createOutput h results (OutputMode_of mode) = createOutput h results (Some pretty)
    \<and> fst (write_results h results mode path w) = fst (write_results h results ''pretty'' path w)
    \<and> stdout (snd (write_results h results mode path w)) =
        stdout (snd (write_results h results ''pretty'' path w))
    \<and> files (snd (write_results h results mode path w)) =
        files (snd (write_results h results ''pretty'' path w))"
proof -
  from assms have none: "OutputMode_of mode = None"
    by (simp add: GetValidOutputOptions_def OutputMode_of_def)
  have same: "createOutput h results None = createOutput h results (Some pretty)"
    by (simp add: createOutput_def)
  show ?thesis
    by (simp add: write_results_def writeToStdout_def writeFile_def none same
        OutputMode_of_pretty split: prod.split sum.split option.split)
qed

theorem invalid_mode_renders_pretty_witness:
  "''xml'' \<notin> set GetValidOutputOptions
   \<and> createOutput host0 results_min (OutputMode_of ''xml'') = Inr pretty_min
   \<and> fst (write_results host0 results_min ''xml'' (Some ''out.txt'') world0) =
       Resolved results_min"
proof -
  have xml: "''xml'' \<notin> set GetValidOutputOptions"
    by (simp add: GetValidOutputOptions_def)
  have "fst (checkOutputPath (Some ''out.txt'') world0) \<noteq> ''stdout''"
    "fs_error world0 (fst (checkOutputPath (Some ''out.txt'') world0)) pretty_min = None"
    by (simp_all add: checkOutputPath_def world0_def)
  with write_results_file(1) [of host0 results_min "''pretty''" pretty_min "Some ''out.txt''" world0]
  have "fst (write_results host0 results_min ''pretty'' (Some ''out.txt'') world0) =
      Resolved results_min"
    by (simp add: OutputMode_of_pretty createOutput_results_min)
  with invalid_mode_renders_pretty [OF xml, of host0 results_min "Some ''out.txt''" world0] xml
  show ?thesis
    by (simp add: createOutput_results_min)
qed

text \<open>
  C1, as stated, fails: with the mode name \<open>xml\<close> and the path \<open>out.txt\<close> the promise
  resolves, the output is composed by the pretty renderer, and it is written to the file.
\<close>

theorem invalid_mode_counterexample:
  "fst (write_results host0 results_min ''xml'' (Some ''out.txt'') world0) = Resolved results_min
   \<and> createOutput host0 results_min (OutputMode_of ''xml'') = Inr pretty_min
   \<and> files (snd (write_results host0 results_min ''xml'' (Some ''out.txt'') world0)) ''out.txt'' =
       Some pretty_min"
proof -
  have none: "OutputMode_of ''xml'' = None"
    by (simp add: OutputMode_of_def)
  have out: "createOutput host0 results_min (OutputMode_of ''xml'') = Inr pretty_min"
    using createOutput_results_min [of host0] by (simp add: none createOutput_def)
  have path: "fst (checkOutputPath (Some ''out.txt'') world0) = ''out.txt''"
    by (simp add: checkOutputPath_def)
  have "fst (checkOutputPath (Some ''out.txt'') world0) \<noteq> ''stdout''"
    "fs_error world0 (fst (checkOutputPath (Some ''out.txt'') world0)) pretty_min = None"
    by (simp_all add: checkOutputPath_def world0_def)
  from write_results_file [OF out this] out show ?thesis
    by (simp add: path)
qed

text \<open>
  C2, at the failing input: for the tree of the minimal pretty render (a scored item
  \<open>Item\<close> of overall 0.8) the pretty output holds the percentage as \<open>80\<close> in the
  informational colour with no suffix, so it does not contain \<open>80%\<close>. The percentage is
  the string \<open>toFixed\<close> returns, and the colorizer wraps a string in that colour and
  drops the suffix, whatever the string.
\<close>

theorem minimal_render_has_no_percent_sign:
  "createOutput h results_min (Some pretty) = Inr pretty_min
   \<and> \<not> sublist ''80%'' pretty_min
   \<and> sublist (bold @ ''Item'' @ reset @ '': '' @ purple @ ''80'' @ reset @ newline) pretty_min
   \<and> formatAggregationResultItem h (SStr s) (Some ''%'') = purple @ s @ reset"
proof -
  have "\<not> sublist ''80%'' pretty_min"
    unfolding pretty_min_bytes by code_simp
  moreover have
    "sublist (bold @ ''Item'' @ reset @ '': '' @ purple @ ''80'' @ reset @ newline) pretty_min"
    unfolding pretty_min_bytes bold_def reset_def purple_def newline_def by code_simp
  ultimately show ?thesis
    by (simp add: createOutput_results_min format_string)
qed

theorem minimal_render_has_no_percent_sign_witness:
  "createOutput host0 results_min (Some pretty) = Inr pretty_min
   \<and> \<not> sublist ''80%'' pretty_min
   \<and> formatAggregationResultItem host0 (SStr ''80'') (Some ''%'') = purple @ ''80'' @ reset"
  using minimal_render_has_no_percent_sign [of host0 "''80''"]
  by simp

text \<open>
  C3, as the code has it: when \<open>results.audits[key]\<close> is \<open>undefined\<close> for a string subItem
  (the key is no own property of \<open>audits\<close> and no property inherited from
  \<open>Object.prototype\<close>), pretty rendering does not complete. \<open>createOutput\<close> throws,
  \<open>write\<close> rejects with what was thrown, and nothing reaches standard output or a file.
  What is thrown is the TypeError of reading \<open>score\<close> of \<open>undefined\<close> when no formatter
  throws. When no subItem is such a reference and no formatter throws, rendering
  completes; a key that is only inherited, such as \<open>constructor\<close>, then renders the line
  \<open>undefined undefined\<close>.
\<close>

theorem dangling_reference_throws:
  "(has_unresolved results \<longrightarrow>
      (\<exists>e. createOutput h results (Some pretty) = Inl e
         \<and> fst (write_results h results ''pretty'' path w) = Rejected e)
      \<and> stdout (snd (write_results h results ''pretty'' path w)) = stdout w
      \<and> files (snd (write_results h results ''pretty'' path w)) = files w)
   \<and> (has_unresolved results \<and> (\<forall>formatter v. \<exists>s. getFormatter h formatter v = Inr s) \<longrightarrow>
        createOutput h results (Some pretty) = Inl TypeError)
   \<and> (\<not> has_unresolved results \<and> (\<forall>formatter v. \<exists>s. getFormatter h formatter v = Inr s) \<longrightarrow>
        (\<exists>out. createOutput h results (Some pretty) = Inr out))
   \<and> (audits results key = None \<and> key \<notin> set Object_prototype_keys \<longrightarrow>
        unresolved results (Ref key)
        \<and> subitem_body h results (Ref key) out = Inl TypeError)
   \<and> (audits results key = None \<and> key \<in> set Object_prototype_keys \<longrightarrow>
        \<not> unresolved results (Ref key)
        \<and> subitem_body h results (Ref key) out =
            Inr (out @ '' '' @ dashes @ '' '' @ purple @ ''undefined'' @ reset
                   @ '' undefined'' @ newline))"
proof (intro conjI impI)
  assume u: "has_unresolved results"
  then obtain e where e: "createOutput h results (Some pretty) = Inl e"
    using createOutput_unresolved by blast
  then have w: "write_results h results ''pretty'' path w =
      (Rejected e, snd (checkOutputPath path w))"
    by (intro write_results_throws) (simp add: OutputMode_of_pretty)
  from e w show "\<exists>e. createOutput h results (Some pretty) = Inl e
      \<and> fst (write_results h results ''pretty'' path w) = Rejected e"
    by simp
  from w show "stdout (snd (write_results h results ''pretty'' path w)) = stdout w"
    by (simp add: checkOutputPath_world)
  from w show "files (snd (write_results h results ''pretty'' path w)) = files w"
    by (simp add: checkOutputPath_world)
next
  assume a: "has_unresolved results \<and> (\<forall>formatter v. \<exists>s. getFormatter h formatter v = Inr s)"
  then obtain e where e: "createOutput h results (Some pretty) = Inl e"
    using createOutput_unresolved by blast
  from a have "e = TypeError"
    by (intro createOutput_error [OF _ e]) blast
  with e show "createOutput h results (Some pretty) = Inl TypeError"
    by simp
next
  assume a: "\<not> has_unresolved results \<and> (\<forall>formatter v. \<exists>s. getFormatter h formatter v = Inr s)"
  then show "\<exists>out. createOutput h results (Some pretty) = Inr out"
    by (intro createOutput_resolved) blast+
next
  assume a: "audits results key = None \<and> key \<notin> set Object_prototype_keys"
  then show "unresolved results (Ref key)"
    and "subitem_body h results (Ref key) out = Inl TypeError"
    by (simp_all add: unresolved_def audits_lookup_def subitem_body_def)
next
  assume a: "audits results key = None \<and> key \<in> set Object_prototype_keys"
  then show "\<not> unresolved results (Ref key)"
    and "subitem_body h results (Ref key) out =
      Inr (out @ '' '' @ dashes @ '' '' @ purple @ ''undefined'' @ reset
             @ '' undefined'' @ newline)"
    by (simp_all add: unresolved_def audits_lookup_def subitem_body_def)
qed

theorem dangling_reference_throws_witness:
  "has_unresolved results_dangling
   \<and> createOutput host0 results_dangling (Some pretty) = Inl TypeError
   \<and> stdout (snd (write_results host0 results_dangling ''pretty'' None world0)) = []
   \<and> files (snd (write_results host0 results_dangling ''pretty'' None world0)) = Map.empty
   \<and> \<not> has_unresolved results_min
   \<and> (\<exists>out. createOutput host0 results_min (Some pretty) = Inr out)
   \<and> subitem_body host0 results_min (Ref ''missing'') [] = Inl TypeError
   \<and> subitem_body host0 results_min (Ref ''constructor'') [] =
       Inr ('' '' @ dashes @ '' '' @ purple @ ''undefined'' @ reset @ '' undefined'' @ newline)"
proof -
  have k: "''missing'' \<notin> set Object_prototype_keys" "''constructor'' \<in> set Object_prototype_keys"
    by (simp_all add: Object_prototype_keys_def)
  have d: "has_unresolved results_dangling"
    by (simp add: has_unresolved_def results_dangling_def unresolved_def audits_lookup_def k)
  have m: "\<not> has_unresolved results_min" "audits results_min = Map.empty"
    by (simp_all add: has_unresolved_def results_min_def unresolved_def)
  have f: "\<forall>formatter v. \<exists>s. getFormatter host0 formatter v = Inr s"
    by (simp add: host0_def)
  from dangling_reference_throws [of results_dangling host0 None world0 "''missing''" "[]"]
    dangling_reference_throws [of results_min host0 None world0 "''missing''" "[]"]
    dangling_reference_throws [of results_min host0 None world0 "''constructor''" "[]"]
    d m f k
  show ?thesis
    by (simp add: world0_def)
qed

text \<open>
  C3, as stated, fails: for a tree whose subItem names the key \<open>missing\<close>, absent from
  \<open>audits\<close>, the pretty renderer throws a TypeError and \<open>write\<close> rejects with it.
\<close>

theorem dangling_reference_counterexample:
  "createOutput host0 results_dangling (Some pretty) = Inl TypeError
   \<and> fst (write_results host0 results_dangling ''pretty'' None world0) = Rejected TypeError"
proof -
  have "''missing'' \<notin> set Object_prototype_keys"
    by (simp add: Object_prototype_keys_def)
  then have "subitem_body host0 results_dangling (Ref ''missing'') out = Inl TypeError" for out
    by (simp add: subitem_body_def results_dangling_def audits_lookup_def)
  then have e: "createOutput host0 results_dangling (Some pretty) = Inl TypeError"
    by (simp add: createOutput_def aggregation_body_def item_body_def results_dangling_def)
  then have "createOutput host0 results_dangling (OutputMode_of ''pretty'') = Inl TypeError"
    by (simp add: OutputMode_of_pretty)
  from write_results_throws [OF this] e show ?thesis
    by simp
qed

text \<open>
  C4: the colorizer returns a string for a boolean, a string and a number alike. For a
  number it picks one of three colours, red up to 45, yellow above 45 and up to 75, green
  above 75 (so 45 is red, 75 and 46 are yellow, 76 is green), and the output is the
  colour, the number, the suffix and the reset code, in that order. The numbers that are
  not finite are coloured too: NaN and \<open>-Infinity\<close> red, \<open>Infinity\<close> green.
\<close>

theorem formatAggregationResultItem_tiers:
  "formatAggregationResultItem h (SBool b) sfx =
     (if b then green @ check_glyph @ reset else red @ fail_glyph @ reset)
   \<and> formatAggregationResultItem h (SStr s) sfx = purple @ s @ reset
   \<and> (x \<le> 45 \<longrightarrow> formatAggregationResultItem h (SNum x) sfx =
         red @ Number_toString h x @ (case sfx of None \<Rightarrow> [] | Some t \<Rightarrow> t) @ reset)
   \<and> (45 < x \<and> x \<le> 75 \<longrightarrow> formatAggregationResultItem h (SNum x) sfx =
         yellow @ Number_toString h x @ (case sfx of None \<Rightarrow> [] | Some t \<Rightarrow> t) @ reset)
   \<and> (75 < x \<longrightarrow> formatAggregationResultItem h (SNum x) sfx =
         green @ Number_toString h x @ (case sfx of None \<Rightarrow> [] | Some t \<Rightarrow> t) @ reset)
   \<and> formatAggregationResultItem h (SNum 45) sfx =
         red @ ''45'' @ (case sfx of None \<Rightarrow> [] | Some t \<Rightarrow> t) @ reset
   \<and> formatAggregationResultItem h (SNum 75) sfx =
         yellow @ ''75'' @ (case sfx of None \<Rightarrow> [] | Some t \<Rightarrow> t) @ reset
   \<and> formatAggregationResultItem h (SNum 46) sfx =
         yellow @ ''46'' @ (case sfx of None \<Rightarrow> [] | Some t \<Rightarrow> t) @ reset
   \<and> formatAggregationResultItem h (SNum 76) sfx =
         green @ ''76'' @ (case sfx of None \<Rightarrow> [] | Some t \<Rightarrow> t) @ reset
   \<and> formatAggregationResultItem h (SNonFinite NaN) sfx =
         red @ ''NaN'' @ (case sfx of None \<Rightarrow> [] | Some t \<Rightarrow> t) @ reset
   \<and> formatAggregationResultItem h (SNonFinite NegInfinity) sfx =
         red @ ''-Infinity'' @ (case sfx of None \<Rightarrow> [] | Some t \<Rightarrow> t) @ reset
   \<and> formatAggregationResultItem h (SNonFinite PosInfinity) sfx =
         green @ ''Infinity'' @ (case sfx of None \<Rightarrow> [] | Some t \<Rightarrow> t) @ reset
   \<and> red \<noteq> yellow \<and> yellow \<noteq> green \<and> red \<noteq> green"
proof -
  have n: "Number_toString h 45 = ''45''" "Number_toString h 75 = ''75''"
    "Number_toString h 46 = ''46''" "Number_toString h 76 = ''76''"
    using Number_toString_nat [of 45 h] Number_toString_nat [of 75 h]
      Number_toString_nat [of 46 h] Number_toString_nat [of 76 h]
    by (simp_all add: decimal_two_digits)
  show ?thesis
    by (simp add: formatAggregationResultItem_def n colours_distinct)
qed

theorem formatAggregationResultItem_tiers_witness:
  "formatAggregationResultItem host0 (SNum 45) (Some ''%'') = red @ ''45%'' @ reset
   \<and> formatAggregationResultItem host0 (SNum 60) None = yellow @ ''60'' @ reset
   \<and> formatAggregationResultItem host0 (SNum 90) None = green @ ''90'' @ reset
   \<and> formatAggregationResultItem host0 (SNum (91 / 2)) None = yellow @ ''?'' @ reset"
proof -
  have n: "Number_toString host0 45 = ''45''" "Number_toString host0 60 = ''60''"
    "Number_toString host0 90 = ''90''"
    using Number_toString_nat [of 45 host0] Number_toString_nat [of 60 host0]
      Number_toString_nat [of 90 host0]
    by (simp_all add: decimal_two_digits)
  have "\<lfloor>91 / 2 :: rat\<rfloor> = 45"
    by (rule floor_unique) simp_all
  then have m: "Number_toString host0 (91 / 2) = ''?''"
    by (simp add: Number_toString_def host0_def double_0_8_def)
  show ?thesis
    using formatAggregationResultItem_tiers [of host0 True "Some ''%''" "[]" 45]
      formatAggregationResultItem_tiers [of host0 True None "[]" 60]
      formatAggregationResultItem_tiers [of host0 True None "[]" 90]
      formatAggregationResultItem_tiers [of host0 True None "[]" "91 / 2"]
    by (simp add: n m)
qed

text \<open>
  C5: for a valid mode whose output is composed, the promise of \<open>write\<close> resolves with the
  \<open>Results\<close> value it was given when the destination is standard output, and when it is a
  file and the write succeeds; when the file write fails, the promise rejects with the
  error of the file system.
\<close>

theorem write_resolves_with_results:
  assumes "mode \<in> set GetValidOutputOptions"
    and "createOutput h results (OutputMode_of mode) = Inr out"
  shows "(fst (checkOutputPath path w) = ''stdout'' \<longrightarrow>
            fst (write_results h results mode path w) = Resolved results)
    \<and> (fst (checkOutputPath path w) \<noteq> ''stdout''
          \<and> fs_error w (fst (checkOutputPath path w)) out = None \<longrightarrow>
            fst (write_results h results mode path w) = Resolved results)
    \<and> (fst (checkOutputPath path w) \<noteq> ''stdout''
          \<and> fs_error w (fst (checkOutputPath path w)) out = Some err \<longrightarrow>
            fst (write_results h results mode path w) = Rejected err)"
  using write_results_stdout [OF assms(2), of path w]
    write_results_file(1) [OF assms(2), of path w]
    write_results_file_fails [OF assms(2), of path w err]
  by simp

theorem write_resolves_with_results_witness:
  "''pretty'' \<in> set GetValidOutputOptions
   \<and> createOutput host0 results_min (OutputMode_of ''pretty'') = Inr pretty_min
   \<and> fst (write_results host0 results_min ''pretty'' None world0) = Resolved results_min
   \<and> fst (write_results host0 results_min ''pretty'' (Some ''out.txt'') world0) =
       Resolved results_min
   \<and> fst (write_results host0 results_min ''pretty'' (Some ''no/such/dir/out.txt'') world_enoent) =
       Rejected (IOError ''ENOENT'')"
proof -
  have v: "''pretty'' \<in> set GetValidOutputOptions"
    by (simp add: GetValidOutputOptions_def)
  have c: "createOutput host0 results_min (OutputMode_of ''pretty'') = Inr pretty_min"
    by (simp add: OutputMode_of_pretty createOutput_results_min)
  have p: "fst (checkOutputPath None world0) = ''stdout''"
    "fst (checkOutputPath (Some ''out.txt'') world0) = ''out.txt''"
    "fst (checkOutputPath (Some ''no/such/dir/out.txt'') world_enoent) = ''no/such/dir/out.txt''"
    by (simp_all add: checkOutputPath_def)
  have f: "fs_error world0 ''out.txt'' pretty_min = None"
    "fs_error world_enoent ''no/such/dir/out.txt'' pretty_min = Some (IOError ''ENOENT'')"
    by (simp_all add: world0_def world_enoent_def)
  from write_resolves_with_results [OF v c, of None world0]
    write_resolves_with_results [OF v c, of "Some ''out.txt''" world0]
    write_resolves_with_results [OF v c, of "Some ''no/such/dir/out.txt''" world_enoent
      "IOError ''ENOENT''"]
  show ?thesis
    by (simp add: v c p f)
qed




text \<open>
  C7: a subItem given as a string key that \<open>audits\<close> holds renders the same fragment as
  the audit given inline, after any output so far; and the pretty output of a tree is
  the pretty output of the tree with every such reference replaced by its audit.
\<close>

theorem reference_renders_as_inline:
  "(audits results key = Some a \<longrightarrow>
      subitem_body h results (Ref key) out = subitem_body h results (Inline a) out)
   \<and> createOutput h (inline_results results) (Some pretty) =
       createOutput h results (Some pretty)"
  by (simp add: subitem_body_def audits_lookup_def createOutput_inline)

theorem reference_renders_as_inline_witness:
  "audits results_ref ''a90'' = Some audit90
   \<and> subitem_body host0 results_ref (Ref ''a90'') [] =
       Inr ('' '' @ dashes @ '' '' @ green @ ''90'' @ reset @ '' desc'' @ newline)
   \<and> subitem_body host0 results_ref (Inline audit90) [] =
       Inr ('' '' @ dashes @ '' '' @ green @ ''90'' @ reset @ '' desc'' @ newline)"
  using reference_renders_as_inline [of results_ref "''a90''" audit90 host0 "[]"]
    subitem_body_audit90 [of host0 results_ref "[]"]
  by (simp add: results_ref_def)

text \<open>
  C8: delivery to standard output appends the string and one newline to what standard
  output holds; delivery to a file, when the write succeeds, makes the string alone the
  contents of the file. The same holds through \<open>write\<close>: with no path the bytes after the
  call are those before, the composed output and one newline; with a path the file holds
  the composed output and standard output is untouched.
\<close>

theorem delivery_bytes:
  "writeToStdout out w = (Resolved (), w\<lparr>stdout := stdout w @ out @ [CHR 0x0A]\<rparr>)
   \<and> (fs_error w filePath out = None \<longrightarrow>
        fst (writeFile filePath out m w) = Resolved ()
        \<and> files (snd (writeFile filePath out m w)) = (files w)(filePath \<mapsto> out)
        \<and> stdout (snd (writeFile filePath out m w)) = stdout w)
   \<and> (createOutput h results (OutputMode_of mode) = Inr out \<longrightarrow>
        stdout (snd (write_results h results mode None w)) = stdout w @ out @ [CHR 0x0A]
        \<and> files (snd (write_results h results mode None w)) = files w)
   \<and> (createOutput h results (OutputMode_of mode) = Inr out \<and> filePath \<noteq> []
        \<and> filePath \<noteq> ''stdout'' \<and> fs_error w filePath out = None \<longrightarrow>
        files (snd (write_results h results mode (Some filePath) w)) filePath = Some out
        \<and> stdout (snd (write_results h results mode (Some filePath) w)) = stdout w)"
proof (intro conjI impI)
  show "writeToStdout out w = (Resolved (), w\<lparr>stdout := stdout w @ out @ [CHR 0x0A]\<rparr>)"
    by (simp add: writeToStdout_def newline_def)
next
  assume ok: "fs_error w filePath out = None"
  then show "fst (writeFile filePath out m w) = Resolved ()"
    and "files (snd (writeFile filePath out m w)) = (files w)(filePath \<mapsto> out)"
    and "stdout (snd (writeFile filePath out m w)) = stdout w"
    by (simp_all add: writeFile_def)
next
  assume c: "createOutput h results (OutputMode_of mode) = Inr out"
  have p: "fst (checkOutputPath None w) = ''stdout''"
    by (simp add: checkOutputPath_def)
  from write_results_stdout [OF c p]
  show "stdout (snd (write_results h results mode None w)) = stdout w @ out @ [CHR 0x0A]"
    and "files (snd (write_results h results mode None w)) = files w"
    by (simp_all add: newline_def checkOutputPath_world)
next
  assume a: "createOutput h results (OutputMode_of mode) = Inr out \<and> filePath \<noteq> []
    \<and> filePath \<noteq> ''stdout'' \<and> fs_error w filePath out = None"
  then have p: "fst (checkOutputPath (Some filePath) w) = filePath"
    by (simp add: checkOutputPath_def)
  from a p write_results_file [of h results mode out "Some filePath" w]
  show "files (snd (write_results h results mode (Some filePath) w)) filePath = Some out"
    and "stdout (snd (write_results h results mode (Some filePath) w)) = stdout w"
    by simp_all
qed

theorem delivery_bytes_witness:
  "stdout (snd (write_results host0 results_min ''pretty'' None world0)) =
     pretty_min @ [CHR 0x0A]
   \<and> files (snd (write_results host0 results_min ''pretty'' (Some ''out.txt'') world0)) ''out.txt'' =
       Some pretty_min
   \<and> stdout (snd (write_results host0 results_min ''pretty'' (Some ''out.txt'') world0)) = []"
proof -
  have c: "createOutput host0 results_min (OutputMode_of ''pretty'') = Inr pretty_min"
    by (simp add: OutputMode_of_pretty createOutput_results_min)
  have f: "fs_error world0 ''out.txt'' pretty_min = None" "stdout world0 = []"
    by (simp_all add: world0_def)
  from delivery_bytes [of pretty_min world0 "''out.txt''" None host0 results_min "''pretty''"] c f
  show ?thesis
    by simp
qed

text \<open>
  C9: for an item that is not scored, the line of the item is its name in bold, a colon
  and a space, and the end of the line (no line when the name is empty): no score token
  stands in it, and the output of the item does not depend on \<open>overall\<close>.
\<close>

theorem unscored_item_has_no_percentage:
  assumes "\<not> scored item"
  shows "item_body h results item out =
      (case forEach (subitem_body h results) (subItems item)
              (if AggregationResultItem.name item \<noteq> []
               then out @ bold @ AggregationResultItem.name item @ reset @ '': '' @ newline
               else out) of
         Inl e \<Rightarrow> Inl e
       | Inr out' \<Rightarrow> Inr (out' @ newline))
    \<and> item_body h results (item\<lparr>overall := x\<rparr>) out = item_body h results item out"
  using assms by (simp add: item_body_def)

theorem unscored_item_has_no_percentage_witness:
  "\<not> scored \<lparr>overall = 8 / 10, name = ''Item'', scored = False, subItems = [Inline audit90]\<rparr>
   \<and> item_body host0 results_min
       \<lparr>overall = 8 / 10, name = ''Item'', scored = False, subItems = [Inline audit90]\<rparr> [] =
     Inr (bold @ ''Item'' @ reset @ '': '' @ newline
          @ '' '' @ dashes @ '' '' @ green @ ''90'' @ reset @ '' desc'' @ newline @ newline)"
  using unscored_item_has_no_percentage
    [of "\<lparr>overall = 8 / 10, name = ''Item'', scored = False, subItems = [Inline audit90]\<rparr>"
      host0 results_min "[]" 0]
  by (simp add: subitem_body_audit90)

text \<open>
  C10: the path \<open>stdout\<close> is treated as no path. \<open>checkOutputPath\<close> gives the same
  destination for both, \<open>write\<close> settles the same way and writes the same bytes to
  standard output, and no file is created or changed, the file named \<open>stdout\<close> included. An
  empty path behaves as an unset one in everything. (The one difference of the path
  \<open>stdout\<close> is that the logger is not warned that no path was set.)
\<close>

theorem stdout_path_is_standard_output:
  "fst (checkOutputPath (Some ''stdout'') w) = fst (checkOutputPath None w)
   \<and> fst (write_results h results mode (Some ''stdout'') w) =
       fst (write_results h results mode None w)
   \<and> stdout (snd (write_results h results mode (Some ''stdout'') w)) =
       stdout (snd (write_results h results mode None w))
   \<and> files (snd (write_results h results mode (Some ''stdout'') w)) = files w
   \<and> files (snd (write_results h results mode None w)) = files w
   \<and> write_results h results mode (Some []) w = write_results h results mode None w"
  by (simp add: write_results_def checkOutputPath_def writeToStdout_def split: sum.split)

theorem stdout_path_is_standard_output_witness:
  "fst (write_results host0 results_min ''pretty'' (Some ''stdout'') world0) = Resolved results_min
   \<and> stdout (snd (write_results host0 results_min ''pretty'' (Some ''stdout'') world0)) =
       pretty_min @ newline
   \<and> files (snd (write_results host0 results_min ''pretty'' (Some ''stdout'') world0)) ''stdout'' =
       None"
proof -
  have c: "createOutput host0 results_min (OutputMode_of ''pretty'') = Inr pretty_min"
    by (simp add: OutputMode_of_pretty createOutput_results_min)
  have p: "fst (checkOutputPath None world0) = ''stdout''"
    by (simp add: checkOutputPath_def)
  from stdout_path_is_standard_output [of world0 host0 results_min "''pretty''"]
    write_results_stdout [OF c p]
  show ?thesis
    by (simp add: world0_def checkOutputPath_world)
qed


end
